theory Spec2Isabelle
  imports Main "HOL-Library.Multiset"
begin

section \<open>Data model of \<open>quiz_streamlit.py\<close>\<close>

text \<open>
  A TEXT cell of the SQLite table, as Python reads it: \<open>None\<close> is SQL NULL
  (Python's \<open>None\<close>), \<open>Some s\<close> a string. The schema puts no NOT NULL constraint
  on any column.
\<close>

type_synonym text_cell = "string option"

text \<open>
  One row of the table \<open>questions\<close> (the CREATE TABLE statement of
  \<open>initialize_user_database\<close>). The two BOOLEAN columns hold integers: the
  queries compare them with \<open>0\<close> and \<open>1\<close>, and a Python bool is stored as 0 or 1.
\<close>

record row =
  r_id :: int
  r_question :: text_cell
  r_option1 :: text_cell
  r_option2 :: text_cell
  r_option3 :: text_cell
  r_option4 :: text_cell
  r_option5 :: text_cell
  r_answer :: text_cell
  has_asked :: int
  user_answered_correctly :: int

text \<open>
  A table is the list of its rows. \<open>id INTEGER PRIMARY KEY\<close> makes the ids of a
  table pairwise different; \<open>primary_key_ok\<close> is that constraint.
\<close>

definition primary_key_ok :: "row list \<Rightarrow> bool" where
  "primary_key_ok tbl = distinct (map r_id tbl)"

text \<open>
  The dict that \<open>get_random_questions\<close> builds from one selected row (the eight
  selected columns), with the key \<open>shuffled_options\<close> that \<open>start_quiz\<close> adds:
  \<open>None\<close> while the key is absent.
\<close>

record question =
  q_id :: int
  question :: text_cell
  option1 :: text_cell
  option2 :: text_cell
  option3 :: text_cell
  option4 :: text_cell
  option5 :: text_cell
  answer :: text_cell
  shuffled_options :: "text_cell list option"

text \<open>The dict that \<open>submit_answer\<close> appends to \<open>results\<close>.\<close>

record result =
  res_question :: text_cell
  correct_answer :: text_cell
  user_answer :: text_cell
  is_correct :: bool

datatype stage = Menu | Quiz | Results

text \<open>The six keys of \<open>st.session_state\<close> that \<open>initialize_session_state\<close> sets.\<close>

record session =
  current_stage :: stage
  quiz_type :: "string option"
  questions :: "question list"
  current_question_index :: nat
  user_answers :: "text_cell list"
  results :: "result list"

text \<open>
  What a handler sends to the hosting framework: \<open>st.error\<close>, \<open>st.toast\<close> and
  \<open>st.rerun\<close>, in the order of the calls.
\<close>

datatype ui_msg = St_error string | St_toast string | St_rerun

text \<open>
  The state the handlers work on: the user's table, the session state and the log of
  the calls made to the framework so far.
\<close>

record world =
  user_db :: "row list"
  session_state :: session
  ui_log :: "ui_msg list"

text \<open>
  The exceptions that leave a handler. IndexError and KeyError are raised by the first
  statement that touches the session, before anything has been written.
  \<open>Sqlite_error\<close> is \<open>sqlite3.Error\<close> leaving \<open>submit_answer\<close>, whose connect,
  UPDATE and commit (lines 236 to 245) stand in no \<open>try\<close>: it is raised after the
  answer and the result have been appended, so \<open>submit_answer\<close> returns the state at
  the raise together with the exception. The three other store functions catch
  \<open>sqlite3.Error\<close> and report it; their failure paths are not part of the model,
  where the table they read or write is always there.
\<close>

datatype py_error = IndexError | KeyError | Sqlite_error

section \<open>Randomness\<close>

text \<open>
  Python's generator is a stream of raw draws; \<open>randbelow n\<close> takes the next draw
  into the range \<open>0..<n\<close>. \<open>random.shuffle\<close> is the library's loop
  \<^verbatim>\<open>for i in reversed(range(1, len(x))): j = randbelow(i + 1); x[i], x[j] = x[j], x[i]\<close>.
\<close>

type_synonym rng = "nat \<Rightarrow> nat"

definition randbelow :: "nat \<Rightarrow> rng \<Rightarrow> nat \<times> rng" where
  "randbelow n g = (g 0 mod n, (\<lambda>k. g (Suc k)))"

fun shuffle_from :: "nat \<Rightarrow> rng \<Rightarrow> 'a list \<Rightarrow> 'a list \<times> rng" where
  "shuffle_from 0 g xs = (xs, g)"
| "shuffle_from (Suc i) g xs =
     (case randbelow (Suc i + 1) g of
        (j, g') \<Rightarrow> shuffle_from i g' (xs[Suc i := xs ! j, j := xs ! Suc i]))"

definition shuffle :: "rng \<Rightarrow> 'a list \<Rightarrow> 'a list \<times> rng" where
  "shuffle g xs = shuffle_from (length xs - 1) g xs"

text \<open>
  \<open>ORDER BY RANDOM()\<close>: SQLite draws one integer per row and sorts the rows by it;
  \<open>rnd i\<close> is the integer drawn for the \<open>i\<close>-th row of the input.
\<close>

definition order_by_random :: "(nat \<Rightarrow> int) \<Rightarrow> 'a list \<Rightarrow> 'a list" where
  "order_by_random rnd rows =
     map snd (sort_key fst (zip (map rnd [0..<length rows]) rows))"

section \<open>The question store\<close>

text \<open>
  \<open>initialize_user_database\<close>, with the content of \<open>questions.db\<close> as the
  parameter \<open>master\<close> (a table of the same ten columns). An absent table is created
  empty, so it is the empty list. The rows are copied when the count is 0; a repeated id
  violates the primary key, the \<open>sqlite3.Error\<close> is caught and reported, and the
  connection is closed without a commit, which leaves the table empty.
\<close>

definition initialize_user_database :: "row list \<Rightarrow> world \<Rightarrow> world" where
  "initialize_user_database master w =
     (let n = length (user_db w) in
      if n = 0 then
        (if distinct (map r_id master) then w\<lparr>user_db := master\<rparr>
         else w\<lparr>ui_log := ui_log w @
           [St_error ''Database initialization error: UNIQUE constraint failed: questions.id'']\<rparr>)
      else w)"

text \<open>The zip of the eight column names with a selected row.\<close>

definition to_question :: "row \<Rightarrow> question" where
  "to_question r =
     \<lparr>q_id = r_id r, question = r_question r,
      option1 = r_option1 r, option2 = r_option2 r, option3 = r_option3 r,
      option4 = r_option4 r, option5 = r_option5 r,
      answer = r_answer r, shuffled_options = None\<rparr>"

text \<open>
  \<^verbatim>\<open>SELECT id, question, option1, ..., option5, answer FROM questions WHERE p
  ORDER BY RANDOM() LIMIT 10\<close>, read into dicts.
\<close>

definition select_random_10 :: "(nat \<Rightarrow> int) \<Rightarrow> (row \<Rightarrow> bool) \<Rightarrow> row list \<Rightarrow> question list" where
  "select_random_10 rnd p tbl = map to_question (take 10 (order_by_random rnd (filter p tbl)))"

text \<open>
  \<open>get_random_questions\<close>: the three queries; for any other option no query is
  executed and \<open>fetchall\<close> gives no row.
\<close>

definition get_random_questions :: "(nat \<Rightarrow> int) \<Rightarrow> int \<Rightarrow> row list \<Rightarrow> question list" where
  "get_random_questions rnd opt tbl =
     (if opt = 1 then select_random_10 rnd (\<lambda>r. True) tbl
      else if opt = 2 then select_random_10 rnd (\<lambda>r. has_asked r = 0) tbl
      else if opt = 3 then
        select_random_10 rnd (\<lambda>r. has_asked r = 1 \<and> user_answered_correctly r = 0) tbl
      else [])"

text \<open>
  \<open>reset_all_questions\<close>: the UPDATE without a WHERE clause, then the toast (the
  emoji that ends the source's text is left out of the string).
\<close>

definition reset_all_questions :: "world \<Rightarrow> world" where
  "reset_all_questions w =
     w\<lparr>user_db := map (\<lambda>r. r\<lparr>has_asked := 0, user_answered_correctly := 0\<rparr>) (user_db w),
       ui_log := ui_log w @ [St_toast ''All questions have been reset successfully!'']\<rparr>"

text \<open>
  The UPDATE of \<open>submit_answer\<close> (lines 236 to 245):
  \<^verbatim>\<open>UPDATE questions SET has_asked = 1, user_answered_correctly = ? WHERE id = ?\<close>
  with the Python bool bound as 1 or 0.
\<close>

definition update_answered :: "bool \<Rightarrow> int \<Rightarrow> row list \<Rightarrow> row list" where
  "update_answered ok qid tbl =
     map (\<lambda>r. if r_id r = qid
               then r\<lparr>has_asked := 1, user_answered_correctly := (if ok then 1 else 0)\<rparr>
               else r) tbl"

text \<open>A read of one id: \<^verbatim>\<open>SELECT * FROM questions WHERE id = ?\<close>, first row.\<close>

definition select_by_id :: "int \<Rightarrow> row list \<Rightarrow> row option" where
  "select_by_id qid tbl = find (\<lambda>r. r_id r = qid) tbl"

section \<open>The session\<close>

definition defaults :: session where
  "defaults =
     \<lparr>current_stage = Menu, quiz_type = None, questions = [],
      current_question_index = 0, user_answers = [], results = []\<rparr>"

text \<open>
  \<open>initialize_session_state\<close>: \<open>None\<close> is a session state without the six keys
  (a new browser session); keys that are present are kept.
\<close>

definition initialize_session_state :: "session option \<Rightarrow> session" where
  "initialize_session_state old = (case old of None \<Rightarrow> defaults | Some s \<Rightarrow> s)"

definition quiz_option_map :: "string \<Rightarrow> int option" where
  "quiz_option_map qt =
     (if qt = ''Random Quiz'' then Some 1
      else if qt = ''Untested Questions Quiz'' then Some 2
      else if qt = ''Incorrect Questions Quiz'' then Some 3
      else None)"

text \<open>The loop of \<open>start_quiz\<close> over the questions (lines 194 to 205).\<close>

fun shuffle_options :: "rng \<Rightarrow> question list \<Rightarrow> question list" where
  "shuffle_options g [] = []"
| "shuffle_options g (q # qs) =
     (case shuffle g [option1 q, option2 q, option3 q, option4 q, option5 q] of
        (options, g') \<Rightarrow> q\<lparr>shuffled_options := Some options\<rparr> # shuffle_options g' qs)"

text \<open>
  \<open>start_quiz\<close>. \<open>rnd\<close> is the randomness of the query, \<open>g\<close> that of the
  shuffles. An unknown quiz type raises KeyError at the lookup in the map.
\<close>

definition start_quiz :: "(nat \<Rightarrow> int) \<Rightarrow> rng \<Rightarrow> string \<Rightarrow> world \<Rightarrow> py_error + world" where
  "start_quiz rnd g qt w =
     (case quiz_option_map qt of
        None \<Rightarrow> Inl KeyError
      | Some opt \<Rightarrow>
          (let qs = get_random_questions rnd opt (user_db w) in
           if length qs < 10 then
             Inr (w\<lparr>ui_log := ui_log w @
               [St_error (''Not enough questions available for '' @ qt @ ''.'')]\<rparr>)
           else
             Inr (w\<lparr>session_state :=
                      \<lparr>current_stage = Quiz, quiz_type = Some qt,
                       questions = shuffle_options g qs,
                       current_question_index = 0, user_answers = [], results = []\<rparr>,
                    ui_log := ui_log w @ [St_rerun]\<rparr>)))"

text \<open>
  \<open>submit_answer\<close>, statement by statement. The index is a natural number (it starts
  at 0 and is only ever incremented); indexing the list at or beyond its length raises
  IndexError, on the first line, before any write. \<open>store_ok\<close> says whether the
  connect, the UPDATE and the commit of lines 236 to 245 go through; when they do not,
  \<open>sqlite3.Error\<close> leaves the handler with the answer and the result appended (lines
  221 and 233), the table unwritten, and the index not incremented (line 248 is not
  reached). \<open>Inl (e, w')\<close> is the exception \<open>e\<close> raised in the state \<open>w'\<close>.
\<close>

definition submit_answer :: "bool \<Rightarrow> text_cell \<Rightarrow> world \<Rightarrow> (py_error \<times> world) + world" where
  "submit_answer store_ok ua w =
     (let s = session_state w; i = current_question_index s in
      if length (questions s) \<le> i then Inl (IndexError, w)
      else
        (let current_question = questions s ! i;
             s1 = s\<lparr>user_answers := user_answers s @ [ua]\<rparr>;
             correct = (ua = answer current_question);
             res = \<lparr>res_question = question current_question,
                    correct_answer = answer current_question,
                    user_answer = ua, is_correct = correct\<rparr>;
             s2 = s1\<lparr>results := results s1 @ [res]\<rparr>
         in if store_ok then
              (let s3 = s2\<lparr>current_question_index := i + 1\<rparr>;
                   s4 = (if length (questions s3) \<le> current_question_index s3
                         then s3\<lparr>current_stage := Results\<rparr> else s3)
               in Inr \<lparr>user_db = update_answered correct (q_id current_question) (user_db w),
                       session_state = s4,
                       ui_log = ui_log w @ [St_rerun]\<rparr>)
            else Inl (Sqlite_error, w\<lparr>session_state := s2\<rparr>)))"

text \<open>
  The button of \<open>render_results\<close> (lines 333 to 335); the argument says whether
  "Return to Menu" was pressed. The display calls write no state and are left out.
\<close>

definition render_results :: "bool \<Rightarrow> world \<Rightarrow> world" where
  "render_results return_pressed w =
     (if return_pressed
      then w\<lparr>session_state := (session_state w)\<lparr>current_stage := Menu\<rparr>,
             ui_log := ui_log w @ [St_rerun]\<rparr>
      else w)"

text \<open>
  The four events of a session, and a run of them. A submit carries whether its write to
  the store goes through. An event whose handler raises ends the script run with the
  state the handler had reached at the raise.
\<close>

datatype event =
  Start "nat \<Rightarrow> int" rng string
| Submit bool text_cell
| Return_to_menu
| Reset

fun step :: "event \<Rightarrow> world \<Rightarrow> world" where
  "step (Start rnd g qt) w = (case start_quiz rnd g qt w of Inl e \<Rightarrow> w | Inr w' \<Rightarrow> w')"
| "step (Submit store_ok ua) w =
     (case submit_answer store_ok ua w of Inl (e, w') \<Rightarrow> w' | Inr w' \<Rightarrow> w')"
| "step Return_to_menu w = render_results True w"
| "step Reset w = reset_all_questions w"

fun run_events :: "event list \<Rightarrow> world \<Rightarrow> world" where
  "run_events [] w = w"
| "run_events (e # es) w = run_events es (step e w)"

section \<open>Vocabulary of the properties\<close>

text \<open>
  The predicate of a filter, by the option number \<open>start_quiz\<close> maps a quiz type to:
  1 is ALL, 2 is UNASKED (\<open>has_asked\<close> false, that is 0), 3 is INCORRECT
  (\<open>has_asked\<close> true and \<open>user_answered_correctly\<close> false).
\<close>

definition matches_filter :: "int \<Rightarrow> row \<Rightarrow> bool" where
  "matches_filter opt r =
     (if opt = 1 then True
      else if opt = 2 then has_asked r = 0
      else if opt = 3 then has_asked r = 1 \<and> user_answered_correctly r = 0
      else False)"

text \<open>The stored option list of a row: its five option columns, in order.\<close>

definition stored_options :: "row \<Rightarrow> text_cell list" where
  "stored_options r = [r_option1 r, r_option2 r, r_option3 r, r_option4 r, r_option5 r]"

text \<open>
  What the handlers keep true of the session as long as no write of a submit to the store
  fails: the position counts the results and the answers, it does not pass the end of the
  batch, and a batch is empty or has 10 questions.
\<close>

definition session_inv :: "session \<Rightarrow> bool" where
  "session_inv s =
     (current_question_index s = length (results s)
      \<and> length (user_answers s) = length (results s)
      \<and> current_question_index s \<le> length (questions s)
      \<and> (length (questions s) = 0 \<or> length (questions s) = 10))"

text \<open>The events whose write to the store, if they make one, goes through.\<close>

fun store_writes_ok :: "event \<Rightarrow> bool" where
  "store_writes_ok (Submit store_ok ua) = store_ok"
| "store_writes_ok e = True"

subsection \<open>Concrete data for the instances\<close>

definition example_row :: "int \<Rightarrow> row" where
  "example_row i =
     \<lparr>r_id = i, r_question = Some ''Q'',
      r_option1 = Some ''a'', r_option2 = Some ''b'', r_option3 = Some ''c'',
      r_option4 = Some ''d'', r_option5 = None,
      r_answer = Some ''b'', has_asked = 0, user_answered_correctly = 0\<rparr>"

definition example_table :: "nat \<Rightarrow> row list" where
  "example_table n = map (\<lambda>k. example_row (int k)) [1..<Suc n]"

definition example_rnd :: "nat \<Rightarrow> int" where
  "example_rnd k = (int k * 7 + 3) mod 5"

definition example_rng :: rng where
  "example_rng k = k"

definition example_world :: "nat \<Rightarrow> world" where
  "example_world n = \<lparr>user_db = example_table n, session_state = defaults, ui_log = []\<rparr>"

definition example_quiz_world :: world where
  "example_quiz_world = step (Start example_rnd example_rng ''Random Quiz'') (example_world 12)"

definition example_failed_world :: world where
  "example_failed_world = step (Submit False (Some ''b'')) example_quiz_world"

definition example_results_world :: world where
  "example_results_world = run_events (replicate 10 (Submit True (Some ''b''))) example_quiz_world"

section \<open>Randomness only permutes\<close>

lemma mset_order_by_random: "mset (order_by_random rnd rows) = mset rows"
proof -
  let ?zs = "zip (map rnd [0..<length rows]) rows"
  have "mset (map snd (sort_key fst ?zs)) = image_mset snd (mset (sort_key fst ?zs))"
    by (rule mset_map)
  also have "\<dots> = image_mset snd (mset ?zs)" by simp
  also have "\<dots> = mset (map snd ?zs)" by (rule mset_map [symmetric])
  also have "map snd ?zs = rows" by simp
  finally show ?thesis by (simp add: order_by_random_def)
qed

lemma set_order_by_random: "set (order_by_random rnd rows) = set rows"
  using mset_order_by_random [of rnd rows] by (rule mset_eq_setD)

lemma length_order_by_random: "length (order_by_random rnd rows) = length rows"
  using mset_order_by_random [of rnd rows] by (rule mset_eq_length)

lemma distinct_map_order_by_random:
  "distinct (map f (order_by_random rnd rows)) = distinct (map f rows)"
proof -
  have "mset (map f (order_by_random rnd rows)) = mset (map f rows)"
    by (simp add: mset_order_by_random)
  then show ?thesis by (rule mset_eq_imp_distinct_iff)
qed

lemma mset_shuffle_from:
  "i < length xs \<Longrightarrow> mset (fst (shuffle_from i g xs)) = mset xs"
proof (induction i arbitrary: g xs)
  case 0
  then show ?case by simp
next
  case (Suc i)
  obtain j g' where r: "randbelow (Suc i + 1) g = (j, g')" by (cases "randbelow (Suc i + 1) g")
  then have j: "j < Suc i + 1" by (auto simp: randbelow_def)
  let ?ys = "xs[Suc i := xs ! j, j := xs ! Suc i]"
  have "mset ?ys = mset xs" using Suc.prems j by (simp add: mset_swap)
  moreover have "i < length ?ys" using Suc.prems by simp
  ultimately show ?case using Suc.IH [of ?ys g'] r by simp
qed

lemma mset_shuffle: "mset (fst (shuffle g xs)) = mset xs"
proof (cases xs)
  case Nil
  then show ?thesis by (simp add: shuffle_def)
next
  case (Cons a list)
  then show ?thesis by (simp add: shuffle_def mset_shuffle_from)
qed

section \<open>The query\<close>

lemma q_id_to_question: "map q_id (map to_question rs) = map r_id rs"
  by (simp add: to_question_def o_def)

lemma length_select_random_10:
  "length (select_random_10 rnd p tbl) = min 10 (length (filter p tbl))"
  by (simp add: select_random_10_def length_order_by_random min.commute)

lemma set_select_random_10:
  "set (select_random_10 rnd p tbl) \<subseteq> to_question ` {r \<in> set tbl. p r}"
proof -
  have "set (take 10 (order_by_random rnd (filter p tbl))) \<subseteq> set (filter p tbl)"
    using set_take_subset [of 10 "order_by_random rnd (filter p tbl)"]
    by (simp add: set_order_by_random)
  then show ?thesis by (auto simp: select_random_10_def)
qed

lemma distinct_select_random_10:
  assumes "distinct (map r_id tbl)"
  shows "distinct (map q_id (select_random_10 rnd p tbl))"
proof -
  have "distinct (map r_id (filter p tbl))"
    using assms by (rule distinct_map_filter)
  then have "distinct (map r_id (order_by_random rnd (filter p tbl)))"
    by (simp add: distinct_map_order_by_random)
  then have "distinct (take 10 (map r_id (order_by_random rnd (filter p tbl))))"
    by (rule distinct_take)
  then show ?thesis
    by (simp only: select_random_10_def q_id_to_question take_map)
qed

lemma get_random_questions_select:
  "get_random_questions rnd opt tbl =
     (if opt \<in> {1, 2, 3} then select_random_10 rnd (matches_filter opt) tbl else [])"
  by (auto simp: get_random_questions_def matches_filter_def [abs_def])

lemma length_get_random_questions:
  "opt \<in> {1, 2, 3} \<Longrightarrow>
   length (get_random_questions rnd opt tbl) = min 10 (length (filter (matches_filter opt) tbl))"
  by (simp only: get_random_questions_select length_select_random_10 if_True)

text \<open>
  C2: for every option (1 ALL, 2 UNASKED, 3 INCORRECT; any other option gives no
  question), on a table that respects its primary key, \<open>get_random_questions\<close> returns
  at most 10 questions, each is the selected columns of a row of the table that satisfies
  the predicate of the filter, and no id occurs twice in the result.
\<close>

theorem get_random_questions_sound:
  assumes "primary_key_ok tbl"
  shows "length (get_random_questions rnd opt tbl) \<le> 10
       \<and> (\<forall>q \<in> set (get_random_questions rnd opt tbl).
            \<exists>r \<in> set tbl. q = to_question r \<and> matches_filter opt r)
       \<and> distinct (map q_id (get_random_questions rnd opt tbl))"
proof (cases "opt \<in> {1, 2, 3}")
  case True
  then have g: "get_random_questions rnd opt tbl = select_random_10 rnd (matches_filter opt) tbl"
    by (simp only: get_random_questions_select if_True)
  have "length (select_random_10 rnd (matches_filter opt) tbl) \<le> 10"
    by (simp add: length_select_random_10)
  moreover have "\<forall>q \<in> set (select_random_10 rnd (matches_filter opt) tbl).
            \<exists>r \<in> set tbl. q = to_question r \<and> matches_filter opt r"
    using set_select_random_10 [of rnd "matches_filter opt" tbl] by auto
  moreover have "distinct (map q_id (select_random_10 rnd (matches_filter opt) tbl))"
    using assms by (simp add: primary_key_ok_def distinct_select_random_10)
  ultimately show ?thesis by (simp only: g) 
next
  case False
  then show ?thesis by (simp add: get_random_questions_select)
qed

lemma primary_key_ok_example_table: "primary_key_ok (example_table n)"
  by (simp add: primary_key_ok_def example_table_def example_row_def o_def distinct_map inj_on_def)

lemma length_example_table: "length (example_table n) = n"
  by (simp add: example_table_def)

text \<open>
  An instance: twelve unasked rows, the UNASKED query; ten of the twelve ids come back.
\<close>

theorem get_random_questions_sound_witness:
  "primary_key_ok (example_table 12)
   \<and> map q_id (get_random_questions example_rnd 2 (example_table 12))
       = [2, 7, 12, 5, 10, 3, 8, 1, 6, 11]
   \<and> length (get_random_questions example_rnd 2 (example_table 12)) \<le> 10
   \<and> (\<exists>r \<in> set (example_table 12).
         hd (get_random_questions example_rnd 2 (example_table 12)) = to_question r
         \<and> matches_filter 2 r)
   \<and> distinct (map q_id (get_random_questions example_rnd 2 (example_table 12)))"
proof -
  have h: "primary_key_ok (example_table 12)"
    by (rule primary_key_ok_example_table)
  have v: "map q_id (get_random_questions example_rnd 2 (example_table 12))
             = [2, 7, 12, 5, 10, 3, 8, 1, 6, 11]"
    by code_simp
  then have "get_random_questions example_rnd 2 (example_table 12) \<noteq> []"
    by auto
  then have m: "hd (get_random_questions example_rnd 2 (example_table 12))
                  \<in> set (get_random_questions example_rnd 2 (example_table 12))"
    by simp
  note t = get_random_questions_sound [OF h, of example_rnd 2]
  from t m have e: "\<exists>r \<in> set (example_table 12).
         hd (get_random_questions example_rnd 2 (example_table 12)) = to_question r
         \<and> matches_filter 2 r"
    by blast
  from t have l: "length (get_random_questions example_rnd 2 (example_table 12)) \<le> 10"
    and d: "distinct (map q_id (get_random_questions example_rnd 2 (example_table 12)))"
    by blast+
  from h v l e d show ?thesis by (intro conjI)
qed

section \<open>Reset\<close>

lemma to_question_reset:
  "to_question (r\<lparr>has_asked := a, user_answered_correctly := b\<rparr>) = to_question r"
  by (simp add: to_question_def)

lemma reset_rows_flags:
  "\<forall>r \<in> set (user_db (reset_all_questions w)). has_asked r = 0 \<and> user_answered_correctly r = 0"
  by (simp add: reset_all_questions_def)

lemma filter_all: "(\<forall>r \<in> set xs. p r) \<Longrightarrow> filter p xs = xs"
  by (induction xs) auto

lemma filter_none: "(\<forall>r \<in> set xs. \<not> p r) \<Longrightarrow> filter p xs = []"
  by (induction xs) auto

lemma mset_select_random_10_small:
  assumes "length (filter p tbl) \<le> 10"
  shows "mset (select_random_10 rnd p tbl) = mset (map to_question (filter p tbl))"
proof -
  have "take 10 (order_by_random rnd (filter p tbl)) = order_by_random rnd (filter p tbl)"
    using assms by (simp add: length_order_by_random)
  then show ?thesis
    by (simp add: select_random_10_def mset_order_by_random)
qed

text \<open>
  C8, as the code has it: after \<open>reset_all_questions\<close> every row has both flags 0,
  the INCORRECT query returns the empty list, and the UNASKED query returns
  \<open>min 10 n\<close> questions of the user's \<open>n\<close>, all of them rows of the table; it
  returns all of the user's questions when there are at most 10 (the query ends with
  LIMIT 10).
\<close>

theorem reset_all_questions_then_query:
  "(\<forall>r \<in> set (user_db (reset_all_questions w)).
       has_asked r = 0 \<and> user_answered_correctly r = 0)
   \<and> get_random_questions rnd 3 (user_db (reset_all_questions w)) = []
   \<and> length (get_random_questions rnd 2 (user_db (reset_all_questions w)))
       = min 10 (length (user_db w))
   \<and> set (get_random_questions rnd 2 (user_db (reset_all_questions w)))
       \<subseteq> to_question ` set (user_db w)
   \<and> (length (user_db w) \<le> 10 \<longrightarrow>
        mset (get_random_questions rnd 2 (user_db (reset_all_questions w)))
          = mset (map to_question (user_db w)))"
proof -
  let ?t = "user_db (reset_all_questions w)"
  have flags: "\<forall>r \<in> set ?t. has_asked r = 0 \<and> user_answered_correctly r = 0"
    by (rule reset_rows_flags)
  have len: "length ?t = length (user_db w)"
    by (simp add: reset_all_questions_def)
  have content: "map to_question ?t = map to_question (user_db w)"
    by (simp add: reset_all_questions_def to_question_reset o_def)
  have f2: "filter (\<lambda>r. has_asked r = 0) ?t = ?t"
    using flags by (simp add: filter_all)
  have f3: "filter (\<lambda>r. has_asked r = 1 \<and> user_answered_correctly r = 0) ?t = []"
    using flags by (simp add: filter_none)
  have q3: "get_random_questions rnd 3 ?t = []"
    by (simp add: get_random_questions_def select_random_10_def f3 order_by_random_def)
  have q2: "get_random_questions rnd 2 ?t = select_random_10 rnd (\<lambda>r. has_asked r = 0) ?t"
    by (simp add: get_random_questions_def)
  have l2: "length (get_random_questions rnd 2 ?t) = min 10 (length (user_db w))"
    by (simp only: q2 length_select_random_10 f2 len)
  have "set (get_random_questions rnd 2 ?t) \<subseteq> to_question ` set ?t"
    using set_select_random_10 [of rnd "\<lambda>r. has_asked r = 0" ?t] by (auto simp: q2)
  also have "to_question ` set ?t = set (map to_question ?t)" by simp
  also have "\<dots> = to_question ` set (user_db w)" by (simp only: content) simp
  finally have s2: "set (get_random_questions rnd 2 ?t) \<subseteq> to_question ` set (user_db w)" .
  have m2: "length (user_db w) \<le> 10 \<longrightarrow>
        mset (get_random_questions rnd 2 ?t) = mset (map to_question (user_db w))"
  proof
    assume "length (user_db w) \<le> 10"
    then have "length (filter (\<lambda>r. has_asked r = 0) ?t) \<le> 10"
      by (simp only: f2 len)
    then have "mset (select_random_10 rnd (\<lambda>r. has_asked r = 0) ?t)
                 = mset (map to_question (filter (\<lambda>r. has_asked r = 0) ?t))"
      by (rule mset_select_random_10_small)
    then show "mset (get_random_questions rnd 2 ?t) = mset (map to_question (user_db w))"
      by (simp only: q2 f2 content)
  qed
  from flags q3 l2 s2 m2 show ?thesis by blast
qed

text \<open>
  C8 as stated fails on a table of eleven rows: after the reset the UNASKED query does
  not return the full set of ids.
\<close>

theorem reset_then_unasked_is_not_full_set:
  "set (map q_id (get_random_questions example_rnd 2 (user_db (reset_all_questions (example_world 11)))))
     \<noteq> set (map r_id (user_db (example_world 11)))"
  by code_simp

theorem reset_all_questions_then_query_witness:
  "length (user_db (example_world 7)) \<le> 10
   \<and> get_random_questions example_rnd 3 (user_db (reset_all_questions (example_world 7))) = []
   \<and> length (get_random_questions example_rnd 2 (user_db (reset_all_questions (example_world 7))))
       = 7
   \<and> mset (get_random_questions example_rnd 2 (user_db (reset_all_questions (example_world 7))))
       = mset (map to_question (user_db (example_world 7)))"
proof -
  have h: "length (user_db (example_world 7)) \<le> 10"
    by (simp add: example_world_def length_example_table)
  have n: "length (user_db (example_world 7)) = 7"
    by (simp add: example_world_def length_example_table)
  note t = reset_all_questions_then_query [of "example_world 7" example_rnd]
  from t have a: "get_random_questions example_rnd 3
                    (user_db (reset_all_questions (example_world 7))) = []"
    by blast
  from t have "length (get_random_questions example_rnd 2
                  (user_db (reset_all_questions (example_world 7))))
                 = min 10 (length (user_db (example_world 7)))"
    by blast
  then have b: "length (get_random_questions example_rnd 2
                  (user_db (reset_all_questions (example_world 7)))) = 7"
    by (simp add: n)
  from t h have c: "mset (get_random_questions example_rnd 2
                       (user_db (reset_all_questions (example_world 7))))
                     = mset (map to_question (user_db (example_world 7)))"
    by blast
  from h a b c show ?thesis by (intro conjI)
qed

section \<open>Recording an answer\<close>

lemma length_update_answered: "length (update_answered ok qid tbl) = length tbl"
  by (simp add: update_answered_def)

lemma nth_update_answered:
  "k < length tbl \<Longrightarrow>
   update_answered ok qid tbl ! k =
     (if r_id (tbl ! k) = qid
      then (tbl ! k)\<lparr>has_asked := 1, user_answered_correctly := (if ok then 1 else 0)\<rparr>
      else tbl ! k)"
  by (simp add: update_answered_def)

lemma to_question_update_answered:
  "map to_question (update_answered ok qid tbl) = map to_question tbl"
  by (simp add: update_answered_def to_question_def o_def)

lemma select_by_id_update_answered:
  "select_by_id qid (update_answered ok qid tbl) =
     map_option (\<lambda>r. r\<lparr>has_asked := 1, user_answered_correctly := (if ok then 1 else 0)\<rparr>)
       (select_by_id qid tbl)"
  by (induction tbl) (simp_all add: select_by_id_def update_answered_def)

lemma select_by_id_update_answered_other:
  "qid' \<noteq> qid \<Longrightarrow> select_by_id qid' (update_answered ok qid tbl) = select_by_id qid' tbl"
  by (induction tbl) (simp_all add: select_by_id_def update_answered_def)

lemma primary_key_ok_update_answered:
  "primary_key_ok (update_answered ok qid tbl) = primary_key_ok tbl"
proof -
  have "map r_id (update_answered ok qid tbl) = map r_id tbl"
    by (simp add: update_answered_def o_def if_distrib cong: if_cong)
  then show ?thesis by (simp add: primary_key_ok_def)
qed

lemma submit_answer_Inl:
  "submit_answer store_ok ua w = Inl (e, w') \<Longrightarrow> user_db w' = user_db w"
  by (auto simp: submit_answer_def Let_def split: if_splits)

lemma submit_answer_Inr:
  assumes "submit_answer store_ok ua w = Inr w'"
  shows "current_question_index (session_state w) < length (questions (session_state w))"
    and "user_db w' =
           update_answered
             (ua = answer (questions (session_state w) ! current_question_index (session_state w)))
             (q_id (questions (session_state w) ! current_question_index (session_state w)))
             (user_db w)"
  using assms by (auto simp: submit_answer_def Let_def split: if_splits)

text \<open>
  C6: a submit that is processed runs the UPDATE for the id of the current question with
  the correctness of the answer. The table keeps its rows and their order; the selected
  columns (id, question text, options, answer) of every row are as before; a row with
  another id is unchanged; a row with that id has \<open>has_asked\<close> 1 and
  \<open>user_answered_correctly\<close> 1 or 0 as the answer was correct or not and is otherwise
  unchanged; a read of that id afterwards gives the row with the new flags.
\<close>

theorem submit_answer_store_frame:
  assumes "submit_answer store_ok ua w = Inr w'"
  shows "length (user_db w') = length (user_db w)
       \<and> map to_question (user_db w') = map to_question (user_db w)
       \<and> (\<forall>k < length (user_db w).
            (r_id (user_db w ! k)
                \<noteq> q_id (questions (session_state w) ! current_question_index (session_state w))
              \<longrightarrow> user_db w' ! k = user_db w ! k)
          \<and> (r_id (user_db w ! k)
                = q_id (questions (session_state w) ! current_question_index (session_state w))
              \<longrightarrow> user_db w' ! k =
                     (user_db w ! k)\<lparr>has_asked := 1,
                        user_answered_correctly :=
                          (if ua = answer (questions (session_state w)
                                             ! current_question_index (session_state w))
                           then 1 else 0)\<rparr>))
       \<and> select_by_id
            (q_id (questions (session_state w) ! current_question_index (session_state w)))
            (user_db w')
          = map_option
              (\<lambda>r. r\<lparr>has_asked := 1,
                      user_answered_correctly :=
                        (if ua = answer (questions (session_state w)
                                           ! current_question_index (session_state w))
                         then 1 else 0)\<rparr>)
              (select_by_id
                 (q_id (questions (session_state w) ! current_question_index (session_state w)))
                 (user_db w))"
proof -
  let ?cq = "questions (session_state w) ! current_question_index (session_state w)"
  have db: "user_db w' = update_answered (ua = answer ?cq) (q_id ?cq) (user_db w)"
    using assms by (rule submit_answer_Inr(2))
  show ?thesis
    by (simp only: db length_update_answered to_question_update_answered
          select_by_id_update_answered)
       (simp add: nth_update_answered)
qed

section \<open>The primary key is kept\<close>

text \<open>
  The hypothesis \<open>primary_key_ok\<close> on the user's table is an invariant of the store:
  seeding, the handlers and every run of events keep it.
\<close>

lemma primary_key_ok_initialize_user_database:
  "primary_key_ok (user_db w) \<Longrightarrow>
   primary_key_ok (user_db (initialize_user_database master w))"
  by (simp add: initialize_user_database_def primary_key_ok_def)

lemma primary_key_ok_reset_all_questions:
  "primary_key_ok (user_db (reset_all_questions w)) = primary_key_ok (user_db w)"
  by (simp add: reset_all_questions_def primary_key_ok_def o_def)

lemma user_db_start_quiz:
  "start_quiz rnd g qt w = Inr w' \<Longrightarrow> user_db w' = user_db w"
  by (auto simp: start_quiz_def Let_def split: option.splits if_splits)

lemma primary_key_ok_step:
  assumes "primary_key_ok (user_db w)"
  shows "primary_key_ok (user_db (step e w))"
proof (cases e)
  case (Start rnd g qt)
  then show ?thesis using assms
    by (cases "start_quiz rnd g qt w") (simp_all add: user_db_start_quiz)
next
  case (Submit store_ok ua)
  show ?thesis
  proof (cases "submit_answer store_ok ua w")
    case (Inl a)
    obtain x w' where a: "a = (x, w')" by (cases a)
    with Inl have "user_db w' = user_db w" by (simp add: submit_answer_Inl)
    with Inl a Submit assms show ?thesis by simp
  next
    case (Inr w')
    with Submit assms show ?thesis
      by (simp add: submit_answer_Inr(2) primary_key_ok_update_answered)
  qed
next
  case Return_to_menu
  then show ?thesis using assms by (simp add: render_results_def)
next
  case Reset
  then show ?thesis using assms by (simp add: primary_key_ok_reset_all_questions)
qed

lemma primary_key_ok_run_events:
  "primary_key_ok (user_db w) \<Longrightarrow> primary_key_ok (user_db (run_events es w))"
  by (induction es arbitrary: w) (simp_all add: primary_key_ok_step)

section \<open>Seeding the user's table\<close>

text \<open>
  C9: with a master table that respects its primary key, \<open>initialize_user_database\<close>
  on an empty user table makes the table the master's rows, every field as it is in the
  master; on a table that is not empty it changes nothing; a second call changes nothing
  the first has not done.
\<close>

theorem initialize_user_database_populates_once:
  assumes "primary_key_ok master"
  shows "(user_db w = [] \<longrightarrow> initialize_user_database master w = w\<lparr>user_db := master\<rparr>)
       \<and> (user_db w \<noteq> [] \<longrightarrow> initialize_user_database master w = w)
       \<and> initialize_user_database master (initialize_user_database master w)
           = initialize_user_database master w"
  using assms by (simp add: initialize_user_database_def primary_key_ok_def)


theorem initialize_user_database_populates_once_witness:
  "primary_key_ok (example_table 12)
   \<and> user_db (example_world 0) = []
   \<and> initialize_user_database (example_table 12) (example_world 0) = example_world 12
   \<and> user_db (example_world 12) \<noteq> []
   \<and> initialize_user_database (example_table 12) (example_world 12) = example_world 12"
proof -
  have h: "primary_key_ok (example_table 12)"
    by (rule primary_key_ok_example_table)
  have e: "user_db (example_world 0) = []"
    by (simp add: example_world_def example_table_def)
  have n: "user_db (example_world 12) \<noteq> []"
    by (simp add: example_world_def example_table_def)
  have u: "(example_world 0)\<lparr>user_db := example_table 12\<rparr> = example_world 12"
    by (simp add: example_world_def)
  from initialize_user_database_populates_once [OF h, of "example_world 0"] e u
  have a: "initialize_user_database (example_table 12) (example_world 0) = example_world 12"
    by simp
  from initialize_user_database_populates_once [OF h, of "example_world 12"] n
  have b: "initialize_user_database (example_table 12) (example_world 12) = example_world 12"
    by simp
  from h e a n b show ?thesis by simp
qed

section \<open>Starting a quiz\<close>

lemma quiz_option_map_Some: "quiz_option_map qt = Some opt \<Longrightarrow> opt \<in> {1, 2, 3}"
  by (auto simp: quiz_option_map_def split: if_splits)

lemma length_get_random_questions_le: "length (get_random_questions rnd opt tbl) \<le> 10"
  by (simp add: get_random_questions_select length_select_random_10)

lemma shuffle_options_rel:
  "list_all2
     (\<lambda>q q'. \<exists>opts. q' = q\<lparr>shuffled_options := Some opts\<rparr>
          \<and> mset opts = mset [option1 q, option2 q, option3 q, option4 q, option5 q])
     qs (shuffle_options g qs)"
proof (induction qs arbitrary: g)
  case Nil
  then show ?case by simp
next
  case (Cons q qs)
  obtain opts g' where
    s: "shuffle g [option1 q, option2 q, option3 q, option4 q, option5 q] = (opts, g')"
    by (cases "shuffle g [option1 q, option2 q, option3 q, option4 q, option5 q]")
  have "mset opts = mset [option1 q, option2 q, option3 q, option4 q, option5 q]"
    using mset_shuffle [of g "[option1 q, option2 q, option3 q, option4 q, option5 q]"] s
    by simp
  then have "\<exists>o'. q\<lparr>shuffled_options := Some opts\<rparr> = q\<lparr>shuffled_options := Some o'\<rparr>
          \<and> mset o' = mset [option1 q, option2 q, option3 q, option4 q, option5 q]"
    by blast
  with Cons.IH [of g'] s show ?case by simp
qed

lemma length_shuffle_options: "length (shuffle_options g qs) = length qs"
  using shuffle_options_rel [of qs g] by (simp add: list_all2_lengthD)

lemma start_quiz_not_enough:
  assumes "quiz_option_map qt = Some opt"
    and "length (get_random_questions rnd opt (user_db w)) < 10"
  shows "start_quiz rnd g qt w =
           Inr (w\<lparr>ui_log := ui_log w @
                  [St_error (''Not enough questions available for '' @ qt @ ''.'')]\<rparr>)"
  using assms by (simp add: start_quiz_def)

lemma start_quiz_enough:
  assumes "quiz_option_map qt = Some opt"
    and "10 \<le> length (get_random_questions rnd opt (user_db w))"
  shows "start_quiz rnd g qt w =
           Inr (w\<lparr>session_state :=
                    \<lparr>current_stage = Quiz, quiz_type = Some qt,
                     questions = shuffle_options g (get_random_questions rnd opt (user_db w)),
                     current_question_index = 0, user_answers = [], results = []\<rparr>,
                  ui_log := ui_log w @ [St_rerun]\<rparr>)"
  using assms by (simp add: start_quiz_def)

text \<open>
  C3: for a quiz type of the menu, when fewer than 10 rows match its filter,
  \<open>start_quiz\<close> reports "Not enough questions available" and changes nothing else:
  stage, batch, position, answers, results and the table are as before. When at least
  10 match, it enters the Quiz stage with a batch of exactly 10 questions. So whenever it
  returns, either the session and the table are unchanged or the stage is Quiz with a
  batch of exactly 10.
\<close>

theorem start_quiz_needs_ten:
  assumes "quiz_option_map qt = Some opt"
  shows "(length (filter (matches_filter opt) (user_db w)) < 10 \<longrightarrow>
            start_quiz rnd g qt w =
              Inr (w\<lparr>ui_log := ui_log w @
                     [St_error (''Not enough questions available for '' @ qt @ ''.'')]\<rparr>))
       \<and> (10 \<le> length (filter (matches_filter opt) (user_db w)) \<longrightarrow>
            (\<exists>w'. start_quiz rnd g qt w = Inr w'
                \<and> current_stage (session_state w') = Quiz
                \<and> length (questions (session_state w')) = 10))
       \<and> (\<forall>w'. start_quiz rnd g qt w = Inr w' \<longrightarrow>
              session_state w' = session_state w \<and> user_db w' = user_db w
            \<or> current_stage (session_state w') = Quiz
              \<and> length (questions (session_state w')) = 10)"
proof -
  let ?qs = "get_random_questions rnd opt (user_db w)"
  have opt: "opt \<in> {1, 2, 3}" using assms by (rule quiz_option_map_Some)
  have len: "length ?qs = min 10 (length (filter (matches_filter opt) (user_db w)))"
    using opt by (rule length_get_random_questions)
  have a: "length (filter (matches_filter opt) (user_db w)) < 10 \<longrightarrow>
            start_quiz rnd g qt w =
              Inr (w\<lparr>ui_log := ui_log w @
                     [St_error (''Not enough questions available for '' @ qt @ ''.'')]\<rparr>)"
  proof
    assume "length (filter (matches_filter opt) (user_db w)) < 10"
    then have "length ?qs < 10" using len by simp
    with assms show "start_quiz rnd g qt w =
              Inr (w\<lparr>ui_log := ui_log w @
                     [St_error (''Not enough questions available for '' @ qt @ ''.'')]\<rparr>)"
      by (rule start_quiz_not_enough)
  qed
  have b: "10 \<le> length (filter (matches_filter opt) (user_db w)) \<longrightarrow>
            (\<exists>w'. start_quiz rnd g qt w = Inr w'
                \<and> current_stage (session_state w') = Quiz
                \<and> length (questions (session_state w')) = 10)"
  proof
    assume "10 \<le> length (filter (matches_filter opt) (user_db w))"
    then have l: "length ?qs = 10" using len by simp
    then have "10 \<le> length ?qs" by simp
    with assms have "start_quiz rnd g qt w =
           Inr (w\<lparr>session_state :=
                    \<lparr>current_stage = Quiz, quiz_type = Some qt,
                     questions = shuffle_options g ?qs,
                     current_question_index = 0, user_answers = [], results = []\<rparr>,
                  ui_log := ui_log w @ [St_rerun]\<rparr>)"
      by (rule start_quiz_enough)
    then show "\<exists>w'. start_quiz rnd g qt w = Inr w'
                \<and> current_stage (session_state w') = Quiz
                \<and> length (questions (session_state w')) = 10"
      by (simp add: length_shuffle_options l)
  qed
  have c: "\<forall>w'. start_quiz rnd g qt w = Inr w' \<longrightarrow>
              session_state w' = session_state w \<and> user_db w' = user_db w
            \<or> current_stage (session_state w') = Quiz
              \<and> length (questions (session_state w')) = 10"
  proof (cases "length (filter (matches_filter opt) (user_db w)) < 10")
    case True
    with a show ?thesis by auto
  next
    case False
    with b show ?thesis by auto
  qed
  from a b c show ?thesis by blast
qed


theorem start_quiz_needs_ten_witness:
  "quiz_option_map ''Untested Questions Quiz'' = Some 2
   \<and> length (filter (matches_filter 2) (user_db (example_world 5))) < 10
   \<and> start_quiz example_rnd example_rng ''Untested Questions Quiz'' (example_world 5) =
       Inr ((example_world 5)\<lparr>ui_log :=
         [St_error ''Not enough questions available for Untested Questions Quiz.'']\<rparr>)
   \<and> 10 \<le> length (filter (matches_filter 2) (user_db (example_world 12)))
   \<and> current_stage (session_state
         (step (Start example_rnd example_rng ''Untested Questions Quiz'') (example_world 12)))
       = Quiz
   \<and> length (questions (session_state
         (step (Start example_rnd example_rng ''Untested Questions Quiz'') (example_world 12))))
       = 10"
proof -
  have m: "quiz_option_map ''Untested Questions Quiz'' = Some 2"
    by (simp add: quiz_option_map_def)
  have few: "length (filter (matches_filter 2) (user_db (example_world 5))) < 10"
    by code_simp
  have many: "10 \<le> length (filter (matches_filter 2) (user_db (example_world 12)))"
    by code_simp
  have log: "ui_log (example_world 5) = []"
    by (simp add: example_world_def)
  from start_quiz_needs_ten [OF m, of "example_world 5" example_rnd example_rng] few log
  have a: "start_quiz example_rnd example_rng ''Untested Questions Quiz'' (example_world 5) =
       Inr ((example_world 5)\<lparr>ui_log :=
         [St_error ''Not enough questions available for Untested Questions Quiz.'']\<rparr>)"
    by simp
  from start_quiz_needs_ten [OF m, of "example_world 12" example_rnd example_rng] many
  obtain w' where
    w': "start_quiz example_rnd example_rng ''Untested Questions Quiz'' (example_world 12) = Inr w'"
      "current_stage (session_state w') = Quiz" "length (questions (session_state w')) = 10"
    by blast
  from w'(1)
  have "step (Start example_rnd example_rng ''Untested Questions Quiz'') (example_world 12) = w'"
    by simp
  with w'(2,3) m few a many show ?thesis by simp
qed

section \<open>The shuffled batch\<close>

lemma count_list_mset_eq: "mset xs = mset ys \<Longrightarrow> count_list xs a = count_list ys a"
  by (metis count_mset)

text \<open>
  C7: when \<open>start_quiz\<close> starts a batch, the table is what it was before (the stored
  rows and the stored order of their options are not written), and every question of the
  batch is the selected columns of a row of the table together with a shuffled option
  list that is a permutation of the row's stored option list: the two are equal as
  multisets, so the correct answer occurs in the shuffled list as many times as in the
  stored one (exactly once after when exactly once before).
\<close>

theorem start_quiz_shuffle_is_permutation:
  assumes "quiz_option_map qt = Some opt"
    and "10 \<le> length (get_random_questions rnd opt (user_db w))"
  shows "\<exists>w'. start_quiz rnd g qt w = Inr w'
       \<and> user_db w' = user_db w
       \<and> (\<forall>q' \<in> set (questions (session_state w')).
            \<exists>r \<in> set (user_db w). \<exists>opts.
               q' = (to_question r)\<lparr>shuffled_options := Some opts\<rparr>
             \<and> mset opts = mset (stored_options r)
             \<and> count_list opts (r_answer r) = count_list (stored_options r) (r_answer r))"
proof -
  let ?qs = "get_random_questions rnd opt (user_db w)"
  let ?w' = "w\<lparr>session_state :=
                    \<lparr>current_stage = Quiz, quiz_type = Some qt,
                     questions = shuffle_options g ?qs,
                     current_question_index = 0, user_answers = [], results = []\<rparr>,
                  ui_log := ui_log w @ [St_rerun]\<rparr>"
  have st: "start_quiz rnd g qt w = Inr ?w'"
    using assms by (rule start_quiz_enough)
  have opt: "opt \<in> {1, 2, 3}" using assms(1) by (rule quiz_option_map_Some)
  have src: "set ?qs \<subseteq> to_question ` set (user_db w)"
    using set_select_random_10 [of rnd "matches_filter opt" "user_db w"] opt
    by (auto simp: get_random_questions_select)
  have "\<forall>q' \<in> set (shuffle_options g ?qs).
            \<exists>r \<in> set (user_db w). \<exists>opts.
               q' = (to_question r)\<lparr>shuffled_options := Some opts\<rparr>
             \<and> mset opts = mset (stored_options r)
             \<and> count_list opts (r_answer r) = count_list (stored_options r) (r_answer r)"
  proof
    fix q' assume "q' \<in> set (shuffle_options g ?qs)"
    then obtain k where k: "k < length (shuffle_options g ?qs)" "q' = shuffle_options g ?qs ! k"
      by (auto simp: in_set_conv_nth)
    then have kl: "k < length ?qs" by (simp add: length_shuffle_options)
    from shuffle_options_rel [of ?qs g] kl k(2)
    obtain opts where o: "q' = (?qs ! k)\<lparr>shuffled_options := Some opts\<rparr>"
      "mset opts = mset [option1 (?qs ! k), option2 (?qs ! k), option3 (?qs ! k),
                         option4 (?qs ! k), option5 (?qs ! k)]"
      by (auto simp: list_all2_conv_all_nth)
    from kl src obtain r where r: "r \<in> set (user_db w)" "?qs ! k = to_question r"
      using nth_mem by blast
    have so: "[option1 (?qs ! k), option2 (?qs ! k), option3 (?qs ! k),
               option4 (?qs ! k), option5 (?qs ! k)] = stored_options r"
      by (simp add: r(2) to_question_def stored_options_def)
    have m: "mset opts = mset (stored_options r)" using o(2) so by simp
    then have "count_list opts (r_answer r) = count_list (stored_options r) (r_answer r)"
      by (rule count_list_mset_eq)
    with o(1) r m show "\<exists>r \<in> set (user_db w). \<exists>opts.
               q' = (to_question r)\<lparr>shuffled_options := Some opts\<rparr>
             \<and> mset opts = mset (stored_options r)
             \<and> count_list opts (r_answer r) = count_list (stored_options r) (r_answer r)"
      by auto
  qed
  then show ?thesis using st by simp
qed

section \<open>Submitting an answer\<close>

text \<open>
  C5: a submit at a position inside the batch is processed, and the result it appends is
  the current question's text, its stored answer, the submitted answer, and the
  correctness flag, which is true exactly when the submitted answer is equal to the
  stored answer. The same result is appended when the write to the store fails.
\<close>

theorem submit_answer_judges_by_equality:
  assumes "current_question_index (session_state w) < length (questions (session_state w))"
  shows "(\<exists>w'. submit_answer True ua w = Inr w'
       \<and> results (session_state w') =
           results (session_state w) @
             [\<lparr>res_question =
                 question (questions (session_state w) ! current_question_index (session_state w)),
               correct_answer =
                 answer (questions (session_state w) ! current_question_index (session_state w)),
               user_answer = ua,
               is_correct =
                 (ua = answer (questions (session_state w)
                                 ! current_question_index (session_state w)))\<rparr>]
       \<and> (is_correct (last (results (session_state w'))) \<longleftrightarrow>
            ua = answer (questions (session_state w) ! current_question_index (session_state w))))
     \<and> (\<exists>w'. submit_answer False ua w = Inl (Sqlite_error, w')
       \<and> results (session_state w') =
           results (session_state w) @
             [\<lparr>res_question =
                 question (questions (session_state w) ! current_question_index (session_state w)),
               correct_answer =
                 answer (questions (session_state w) ! current_question_index (session_state w)),
               user_answer = ua,
               is_correct =
                 (ua = answer (questions (session_state w)
                                 ! current_question_index (session_state w)))\<rparr>])"
  using assms by (simp add: submit_answer_def Let_def)

text \<open>
  C10, as the code has it: \<open>submit_answer\<close> does not guard the access to the current
  question. With the position at or beyond the length of the batch it raises IndexError
  on its first statement, before any write, so the session and the table stay as they
  were; and it does not check the stage: in another stage it raises or returns as it does
  in this one.
\<close>

theorem submit_answer_fails_out_of_range:
  "(length (questions (session_state w)) \<le> current_question_index (session_state w) \<longrightarrow>
      submit_answer store_ok ua w = Inl (IndexError, w)
      \<and> step (Submit store_ok ua) w = w)
   \<and> (isl (submit_answer store_ok ua
             (w\<lparr>session_state := (session_state w)\<lparr>current_stage := stg\<rparr>\<rparr>))
        \<longleftrightarrow> isl (submit_answer store_ok ua w))"
  by (auto simp: submit_answer_def Let_def)

text \<open>
  C10 as stated fails in a new session (stage Menu, empty batch, position 0): a submit is
  neither ignored nor reported, it raises IndexError.
\<close>

theorem submit_answer_unguarded:
  "submit_answer True (Some ''b'') (example_world 12) = Inl (IndexError, example_world 12)"
  by (simp add: submit_answer_def example_world_def defaults_def)

section \<open>Returning to the menu\<close>

text \<open>
  C4, as the code has it: the "Return to Menu" button sets the stage to Menu and writes
  nothing else: batch, answers, results, position and quiz-type label are kept, and so is
  the table.
\<close>

theorem render_results_return_keeps_session:
  "current_stage (session_state (render_results True w)) = Menu
   \<and> questions (session_state (render_results True w)) = questions (session_state w)
   \<and> user_answers (session_state (render_results True w)) = user_answers (session_state w)
   \<and> results (session_state (render_results True w)) = results (session_state w)
   \<and> current_question_index (session_state (render_results True w))
       = current_question_index (session_state w)
   \<and> quiz_type (session_state (render_results True w)) = quiz_type (session_state w)
   \<and> user_db (render_results True w) = user_db w"
  by (simp add: render_results_def)

section \<open>The instances' quiz\<close>

lemma user_db_example_quiz_world: "user_db example_quiz_world = example_table 12"
proof -
  have m: "quiz_option_map ''Random Quiz'' = Some 1"
    by (simp add: quiz_option_map_def)
  have "length (get_random_questions example_rnd 1 (user_db (example_world 12))) = 10"
    by code_simp
  then have "10 \<le> length (get_random_questions example_rnd 1 (user_db (example_world 12)))"
    by simp
  with m show ?thesis
    by (simp add: example_quiz_world_def start_quiz_enough) (simp add: example_world_def)
qed

lemma example_quiz_world_position:
  "current_question_index (session_state example_quiz_world) = 0"
  by code_simp

lemma example_quiz_world_batch:
  "length (questions (session_state example_quiz_world)) = 10"
  by code_simp

lemma example_quiz_world_first:
  "questions (session_state example_quiz_world) ! 0 =
     \<lparr>q_id = 2, question = Some ''Q'',
      option1 = Some ''a'', option2 = Some ''b'', option3 = Some ''c'',
      option4 = Some ''d'', option5 = None, answer = Some ''b'',
      shuffled_options = Some [None, Some ''d'', Some ''c'', Some ''b'', Some ''a'']\<rparr>"
  by code_simp

lemma submit_answer_step:
  "current_question_index (session_state w) < length (questions (session_state w)) \<Longrightarrow>
   submit_answer True ua w = Inr (step (Submit True ua) w)"
  by (simp add: submit_answer_def Let_def)

lemma submit_answer_step_failed:
  "current_question_index (session_state w) < length (questions (session_state w)) \<Longrightarrow>
   submit_answer False ua w = Inl (Sqlite_error, step (Submit False ua) w)"
  by (simp add: submit_answer_def Let_def)

text \<open>
  C4 as stated fails after a whole quiz (a start and ten submits on a table of twelve
  rows): the stage is Results, and after "Return to Menu" the batch, the answers and the
  results still have their ten entries and the quiz-type label is still set.
\<close>

theorem return_to_menu_keeps_batch:
  "current_stage (session_state example_results_world) = Results
   \<and> length (questions (session_state (render_results True example_results_world))) = 10
   \<and> length (user_answers (session_state (render_results True example_results_world))) = 10
   \<and> length (results (session_state (render_results True example_results_world))) = 10
   \<and> quiz_type (session_state (render_results True example_results_world)) = Some ''Random Quiz''"
  by code_simp

section \<open>The invariant of the session\<close>

lemma session_inv_defaults: "session_inv defaults"
  by (simp add: session_inv_def defaults_def)

lemma session_inv_start:
  assumes "session_inv (session_state w)"
  shows "session_inv (session_state (step (Start rnd g qt) w))"
proof (cases "quiz_option_map qt")
  case None
  then show ?thesis using assms by (simp add: start_quiz_def)
next
  case (Some opt)
  show ?thesis
  proof (cases "length (get_random_questions rnd opt (user_db w)) < 10")
    case True
    with Some assms show ?thesis by (simp add: start_quiz_not_enough)
  next
    case False
    then have "length (get_random_questions rnd opt (user_db w)) = 10"
      using length_get_random_questions_le [of rnd opt "user_db w"] by simp
    with Some show ?thesis
      by (simp add: start_quiz_enough session_inv_def length_shuffle_options)
  qed
qed

lemma session_inv_submit:
  assumes "session_inv (session_state w)"
  shows "session_inv (session_state (step (Submit True ua) w))"
  using assms by (auto simp: submit_answer_def Let_def session_inv_def)

lemma session_inv_step:
  assumes "session_inv (session_state w)" and "store_writes_ok e"
  shows "session_inv (session_state (step e w))"
proof (cases e)
  case (Start rnd g qt)
  from assms(1) show ?thesis unfolding Start by (rule session_inv_start)
next
  case (Submit store_ok ua)
  with assms(2) have "store_ok" by simp
  with assms(1) show ?thesis unfolding Submit by (simp only: session_inv_submit)
next
  case Return_to_menu
  with assms(1) show ?thesis by (simp add: render_results_def session_inv_def)
next
  case Reset
  with assms(1) show ?thesis by (simp add: reset_all_questions_def)
qed

lemma session_inv_run_events:
  "session_inv (session_state w) \<Longrightarrow> list_all store_writes_ok es \<Longrightarrow>
   session_inv (session_state (run_events es w))"
  by (induction es arbitrary: w) (simp_all add: session_inv_step)

text \<open>
  While every write to the store goes through, the position is the number of results and
  is at most 10, from a new session on and over any events.
\<close>

lemma position_tracks_results_while_store_ok:
  assumes "session_state w0 = initialize_session_state None"
    and "list_all store_writes_ok es"
  shows "current_question_index (session_state (run_events es w0))
           = length (results (session_state (run_events es w0)))"
    and "current_question_index (session_state (run_events es w0)) \<le> 10"
proof -
  have "session_inv (session_state w0)"
    by (simp add: assms(1) initialize_session_state_def session_inv_defaults)
  then have inv: "session_inv (session_state (run_events es w0))"
    using assms(2) by (rule session_inv_run_events)
  then show "current_question_index (session_state (run_events es w0))
           = length (results (session_state (run_events es w0)))"
    by (simp add: session_inv_def)
  from inv show "current_question_index (session_state (run_events es w0)) \<le> 10"
    by (auto simp: session_inv_def)
qed

lemma start_quiz_resets_position:
  assumes "quiz_option_map qt = Some opt"
    and "10 \<le> length (get_random_questions rnd opt (user_db w))"
  shows "current_question_index (session_state (step (Start rnd g qt) w)) = 0
       \<and> user_answers (session_state (step (Start rnd g qt) w)) = []
       \<and> results (session_state (step (Start rnd g qt) w)) = []"
  using assms by (simp add: start_quiz_enough)

lemma submit_advances_by_one:
  assumes "current_question_index (session_state v) < length (questions (session_state v))"
  shows "length (results (session_state (step (Submit True ua) v)))
           = length (results (session_state v)) + 1
       \<and> butlast (results (session_state (step (Submit True ua) v))) = results (session_state v)
       \<and> current_question_index (session_state (step (Submit True ua) v))
           = current_question_index (session_state v) + 1"
  using assms by (simp add: submit_answer_def Let_def)

lemma failed_submit_appends_without_advancing:
  assumes "current_question_index (session_state v) < length (questions (session_state v))"
  shows "length (results (session_state (step (Submit False ua) v)))
           = length (results (session_state v)) + 1
       \<and> current_question_index (session_state (step (Submit False ua) v))
           = current_question_index (session_state v)
       \<and> user_db (step (Submit False ua) v) = user_db v"
  using assms by (simp add: submit_answer_def Let_def)

text \<open>
  C1: the position is to be the number of results after every transition. The code breaks
  this when the write of a submit to the store fails. In the quiz just started on twelve
  rows (position 0, no result), a submit whose UPDATE raises \<open>sqlite3.Error\<close> leaves
  the handler with one result appended and the position still 0: the result is appended on
  line 233, the UPDATE of lines 236 to 245 stands in no \<open>try\<close>, and the increment
  of line 248 comes after it.
\<close>

theorem failed_store_write_breaks_position:
  "current_question_index (session_state example_quiz_world) = 0
   \<and> length (results (session_state example_quiz_world)) = 0
   \<and> submit_answer False (Some ''b'') example_quiz_world
       = Inl (Sqlite_error, example_failed_world)
   \<and> current_question_index (session_state example_failed_world) = 0
   \<and> length (results (session_state example_failed_world)) = 1"
proof -
  have p: "current_question_index (session_state example_quiz_world) = 0"
    by (rule example_quiz_world_position)
  have m: "quiz_option_map ''Random Quiz'' = Some 1"
    by (simp add: quiz_option_map_def)
  have n: "10 \<le> length (get_random_questions example_rnd 1 (user_db (example_world 12)))"
    by code_simp
  from start_quiz_resets_position [OF m n, of example_rng]
  have r: "length (results (session_state example_quiz_world)) = 0"
    by (simp add: example_quiz_world_def)
  have i: "current_question_index (session_state example_quiz_world)
             < length (questions (session_state example_quiz_world))"
    by (simp add: example_quiz_world_position example_quiz_world_batch)
  then have f: "submit_answer False (Some ''b'') example_quiz_world
                  = Inl (Sqlite_error, example_failed_world)"
    unfolding example_failed_world_def by (rule submit_answer_step_failed)
  from failed_submit_appends_without_advancing [OF i, of "Some ''b''"]
  have a: "current_question_index (session_state example_failed_world) = 0"
    and b: "length (results (session_state example_failed_world)) = 1"
    by (simp_all only: example_failed_world_def p r)
  from p r f a b show ?thesis by (intro conjI)
qed

section \<open>Instances on the concrete quiz\<close>

text \<open>
  The batch of the instance (the Random Quiz on twelve rows): every question of it has a
  shuffled option list that is a permutation of its row's options.
\<close>

theorem start_quiz_shuffle_is_permutation_witness:
  "quiz_option_map ''Random Quiz'' = Some 1
   \<and> 10 \<le> length (get_random_questions example_rnd 1 (user_db (example_world 12)))
   \<and> user_db example_quiz_world = user_db (example_world 12)
   \<and> shuffled_options (questions (session_state example_quiz_world) ! 0)
       = Some [None, Some ''d'', Some ''c'', Some ''b'', Some ''a'']
   \<and> (\<exists>r \<in> set (user_db (example_world 12)). \<exists>opts.
         questions (session_state example_quiz_world) ! 0
           = (to_question r)\<lparr>shuffled_options := Some opts\<rparr>
         \<and> mset opts = mset (stored_options r)
         \<and> count_list opts (r_answer r) = count_list (stored_options r) (r_answer r))"
proof -
  have m: "quiz_option_map ''Random Quiz'' = Some 1"
    by (simp add: quiz_option_map_def)
  have n: "10 \<le> length (get_random_questions example_rnd 1 (user_db (example_world 12)))"
    by code_simp
  have f: "shuffled_options (questions (session_state example_quiz_world) ! 0)
             = Some [None, Some ''d'', Some ''c'', Some ''b'', Some ''a'']"
    by (simp only: example_quiz_world_first) simp
  have mem: "questions (session_state example_quiz_world) ! 0
               \<in> set (questions (session_state example_quiz_world))"
    by (rule nth_mem) (simp add: example_quiz_world_batch)
  from start_quiz_shuffle_is_permutation [OF m n, of example_rng]
  obtain w' where w': "start_quiz example_rnd example_rng ''Random Quiz'' (example_world 12) = Inr w'"
    "user_db w' = user_db (example_world 12)"
    "\<forall>q' \<in> set (questions (session_state w')).
         \<exists>r \<in> set (user_db (example_world 12)). \<exists>opts.
            q' = (to_question r)\<lparr>shuffled_options := Some opts\<rparr>
          \<and> mset opts = mset (stored_options r)
          \<and> count_list opts (r_answer r) = count_list (stored_options r) (r_answer r)"
    by blast
  from w'(1) have eq: "example_quiz_world = w'"
    by (simp add: example_quiz_world_def)
  from w'(2) eq have u: "user_db example_quiz_world = user_db (example_world 12)"
    by simp
  from w'(3) eq mem have e: "\<exists>r \<in> set (user_db (example_world 12)). \<exists>opts.
         questions (session_state example_quiz_world) ! 0
           = (to_question r)\<lparr>shuffled_options := Some opts\<rparr>
         \<and> mset opts = mset (stored_options r)
         \<and> count_list opts (r_answer r) = count_list (stored_options r) (r_answer r)"
    by blast
  from m n u f e show ?thesis by (intro conjI)
qed

text \<open>
  The first question of that batch has the answer \<open>b\<close>; submitting \<open>a\<close> appends
  a result that is marked incorrect, whether the write to the store goes through or not.
\<close>

theorem submit_answer_judges_by_equality_witness:
  "current_question_index (session_state example_quiz_world)
     < length (questions (session_state example_quiz_world))
   \<and> results (session_state (step (Submit True (Some ''a'')) example_quiz_world)) =
       [\<lparr>res_question = Some ''Q'', correct_answer = Some ''b'',
         user_answer = Some ''a'', is_correct = False\<rparr>]
   \<and> results (session_state (step (Submit False (Some ''a'')) example_quiz_world)) =
       [\<lparr>res_question = Some ''Q'', correct_answer = Some ''b'',
         user_answer = Some ''a'', is_correct = False\<rparr>]"
proof -
  let ?R = "results (session_state example_quiz_world) @
             [\<lparr>res_question =
                 question (questions (session_state example_quiz_world)
                   ! current_question_index (session_state example_quiz_world)),
               correct_answer =
                 answer (questions (session_state example_quiz_world)
                   ! current_question_index (session_state example_quiz_world)),
               user_answer = Some ''a'',
               is_correct =
                 (Some ''a'' = answer (questions (session_state example_quiz_world)
                                 ! current_question_index (session_state example_quiz_world)))\<rparr>]"
  have h: "current_question_index (session_state example_quiz_world)
             < length (questions (session_state example_quiz_world))"
    by (simp add: example_quiz_world_position example_quiz_world_batch)
  have r0: "results (session_state example_quiz_world) = []"
    by code_simp
  have v: "?R = [\<lparr>res_question = Some ''Q'', correct_answer = Some ''b'',
                  user_answer = Some ''a'', is_correct = False\<rparr>]"
    by (simp add: r0 example_quiz_world_position example_quiz_world_first)
  note t = submit_answer_judges_by_equality [OF h, of "Some ''a''"]
  from t obtain w1 where w1: "submit_answer True (Some ''a'') example_quiz_world = Inr w1"
    "results (session_state w1) = ?R"
    by blast
  from t obtain w2 where
    w2: "submit_answer False (Some ''a'') example_quiz_world = Inl (Sqlite_error, w2)"
    "results (session_state w2) = ?R"
    by blast
  from w1(1) have "step (Submit True (Some ''a'')) example_quiz_world = w1" by simp
  with w1(2) v
  have a: "results (session_state (step (Submit True (Some ''a'')) example_quiz_world)) =
       [\<lparr>res_question = Some ''Q'', correct_answer = Some ''b'',
         user_answer = Some ''a'', is_correct = False\<rparr>]"
    by (simp only:)
  from w2(1) have "step (Submit False (Some ''a'')) example_quiz_world = w2" by simp
  with w2(2) v
  have b: "results (session_state (step (Submit False (Some ''a'')) example_quiz_world)) =
       [\<lparr>res_question = Some ''Q'', correct_answer = Some ''b'',
         user_answer = Some ''a'', is_correct = False\<rparr>]"
    by (simp only:)
  from h a b show ?thesis by (intro conjI)
qed

lemma select_by_id_example: "select_by_id 2 (example_table 12) = Some (example_row 2)"
  by code_simp

text \<open>
  Submitting \<open>b\<close> for the first question (id 2) sets both flags of row 2 to 1.
\<close>

theorem submit_answer_store_frame_witness:
  "submit_answer True (Some ''b'') example_quiz_world
     = Inr (step (Submit True (Some ''b'')) example_quiz_world)
   \<and> 0 < length (user_db example_quiz_world)
   \<and> select_by_id 2 (user_db example_quiz_world) = Some (example_row 2)
   \<and> select_by_id 2 (user_db (step (Submit True (Some ''b'')) example_quiz_world))
       = Some ((example_row 2)\<lparr>has_asked := 1, user_answered_correctly := 1\<rparr>)"
proof -
  have h: "submit_answer True (Some ''b'') example_quiz_world
             = Inr (step (Submit True (Some ''b'')) example_quiz_world)"
    by (rule submit_answer_step)
       (simp add: example_quiz_world_position example_quiz_world_batch)
  have l: "0 < length (user_db example_quiz_world)"
    by (simp add: user_db_example_quiz_world length_example_table)
  have s: "select_by_id 2 (user_db example_quiz_world) = Some (example_row 2)"
    by (simp only: user_db_example_quiz_world select_by_id_example)
  note t = submit_answer_store_frame [OF h, THEN conjunct2, THEN conjunct2, THEN conjunct2]
  have "select_by_id 2 (user_db (step (Submit True (Some ''b'')) example_quiz_world))
       = Some ((example_row 2)\<lparr>has_asked := 1, user_answered_correctly := 1\<rparr>)"
    using t by (simp add: example_quiz_world_position example_quiz_world_first s)
  with h l s show ?thesis by (intro conjI)
qed

text \<open>A submit in a new session raises IndexError and leaves the state as it was.\<close>

theorem submit_answer_fails_out_of_range_witness:
  "length (questions (session_state (example_world 12)))
     \<le> current_question_index (session_state (example_world 12))
   \<and> submit_answer True (Some ''b'') (example_world 12) = Inl (IndexError, example_world 12)
   \<and> step (Submit True (Some ''b'')) (example_world 12) = example_world 12
   \<and> isl (submit_answer True (Some ''b'')
          ((example_world 12)\<lparr>session_state :=
             (session_state (example_world 12))\<lparr>current_stage := Results\<rparr>\<rparr>))"
proof -
  have h: "length (questions (session_state (example_world 12)))
             \<le> current_question_index (session_state (example_world 12))"
    by (simp add: example_world_def defaults_def)
  note t = submit_answer_fails_out_of_range [of "example_world 12" True "Some ''b''" Results]
  from t h
  have a: "submit_answer True (Some ''b'') (example_world 12) = Inl (IndexError, example_world 12)"
    and b: "step (Submit True (Some ''b'')) (example_world 12) = example_world 12"
    by blast+
  from a have "isl (submit_answer True (Some ''b'') (example_world 12))"
    by (simp only: sum.disc)
  with t
  have c: "isl (submit_answer True (Some ''b'')
          ((example_world 12)\<lparr>session_state :=
             (session_state (example_world 12))\<lparr>current_stage := Results\<rparr>\<rparr>))"
    by blast
  from h a b c show ?thesis by (intro conjI)
qed

end
